theory Spec2Isabelle
  imports Main
begin

section \<open>The chat session store of src/lib/chatStore.ts\<close>

subsection \<open>Data model\<close>

text \<open>
  The two exported types. \<open>Msg\<close> has two optional fields; an absent field is \<open>None\<close>.
  Timestamps are milliseconds since the epoch, as \<open>Date.now()\<close> returns them: integers.
\<close>

datatype Role = User | Assistant

record Msg =
  role :: Role
  content :: string
  sources :: "string list option"
  ts :: "int option"

text \<open>
  \<open>ChatSession\<close> is declared with \<open>title: string\<close> and \<open>messages: Msg[]\<close>. The record
  leaves the types of these two fields open: the declared type is the instance
  \<open>(string, Msg) ChatSession\<close>, and \<open>loadSessions\<close>, which copies both fields from parsed
  JSON without looking at their type, returns the instance \<open>(json, json) ChatSession\<close>.
  The field \<open>id\<close> is written \<open>id'\<close>.
\<close>

record ('t, 'm) ChatSession =
  id' :: string
  title :: 't
  createdAt :: int
  updatedAt :: int
  messages :: "'m list"

definition STORAGE_KEY :: string where
  "STORAGE_KEY = ''broker_chat_sessions_v1''"

subsection \<open>The host: JSON values, local storage, the clock, sorting\<close>

text \<open>
  What \<open>JSON.parse\<close> returns. An object is the list of its own properties in insertion
  order, each key once.
\<close>

datatype json =
    JNull
  | JBool bool
  | JNum int
  | JStr string
  | JArr "json list"
  | JObj "(string \<times> json) list"

text \<open>
  \<open>JSON.parse\<close> and \<open>JSON.stringify\<close> belong to the host and are parameters of the
  functions that call them: \<open>parse raw = None\<close> is the \<open>SyntaxError\<close> that
  \<open>JSON.parse(raw)\<close> throws.
\<close>

type_synonym parser = "string \<Rightarrow> json option"

text \<open>
  The environment of a call: whether \<open>typeof window\<close> is not \<open>"undefined"\<close>, and the
  content of \<open>localStorage\<close> (\<open>getItem\<close> of a missing key is \<open>null\<close>, here \<open>None\<close>).
\<close>

record env =
  has_window :: bool
  localStorage :: "string \<rightharpoonup> string"

text \<open>
  \<open>Date.now()\<close>: the clock gives the reading of the \<open>n\<close>-th call made during one
  invocation, counted from 0. A function that reads the clock once, on entry, takes
  that reading as its argument \<open>now\<close>.
\<close>

type_synonym clock = "nat \<Rightarrow> int"

text \<open>JavaScript truthiness of a JSON value (\<open>!v\<close> is its negation).\<close>

fun truthy :: "json \<Rightarrow> bool" where
  "truthy JNull = False"
| "truthy (JBool b) = b"
| "truthy (JNum n) = (n \<noteq> 0)"
| "truthy (JStr s) = (s \<noteq> [])"
| "truthy (JArr xs) = True"
| "truthy (JObj kvs) = True"

fun isArray :: "json \<Rightarrow> bool" where
  "isArray (JArr xs) = True"
| "isArray v = False"

fun elements :: "json \<Rightarrow> json list" where
  "elements (JArr xs) = xs"
| "elements v = []"

text \<open>
  Property access \<open>v.k\<close> on a value that is not \<open>null\<close>; \<open>None\<close> is \<open>undefined\<close>.
  Only the keys \<open>id\<close>, \<open>title\<close>, \<open>createdAt\<close>, \<open>updatedAt\<close> and \<open>messages\<close> are read,
  and no prototype defines them, so a value other than an object has none of them.
\<close>

fun property :: "string \<Rightarrow> json \<Rightarrow> json option" where
  "property k (JObj kvs) = map_of kvs k"
| "property k v = None"

text \<open>
  \<open>Array.prototype.sort(cmp)\<close>: the language requires a stable sort that places \<open>a\<close>
  before \<open>b\<close> when \<open>cmp(a, b) < 0\<close>. It is modelled by stable insertion: an element goes
  in front of the first one it does not compare greater than.
\<close>

fun insert_cmp :: "('a \<Rightarrow> 'a \<Rightarrow> int) \<Rightarrow> 'a \<Rightarrow> 'a list \<Rightarrow> 'a list" where
  "insert_cmp cmp x [] = [x]"
| "insert_cmp cmp x (y # ys) =
     (if cmp x y \<le> 0 then x # y # ys else y # insert_cmp cmp x ys)"

definition sort_cmp :: "('a \<Rightarrow> 'a \<Rightarrow> int) \<Rightarrow> 'a list \<Rightarrow> 'a list" where
  "sort_cmp cmp xs = foldr (insert_cmp cmp) xs []"

subsection \<open>Loading\<close>

text \<open>\<open>safeParse\<close>: \<open>null\<close> for a missing or empty string and for a parse error.\<close>

definition safeParse :: "parser \<Rightarrow> string option \<Rightarrow> json" where
  "safeParse parse raw =
     (case raw of
        None \<Rightarrow> JNull
      | Some r \<Rightarrow>
          if r = [] then JNull
          else (case parse r of None \<Rightarrow> JNull | Some v \<Rightarrow> v))"

text \<open>The filter of \<open>loadSessions\<close>: \<open>s && typeof s.id === "string"\<close>.\<close>

definition has_string_id :: "json \<Rightarrow> bool" where
  "has_string_id s =
     (truthy s \<and> (case property ''id'' s of Some (JStr i) \<Rightarrow> True | _ \<Rightarrow> False))"

text \<open>\<open>typeof v === "number" ? v : Date.now()\<close>, with the number of clock readings so far.\<close>

definition number_or_now :: "clock \<Rightarrow> nat \<Rightarrow> json option \<Rightarrow> int \<times> nat" where
  "number_or_now clk n v =
     (case v of Some (JNum x) \<Rightarrow> (x, n) | _ \<Rightarrow> (clk n, Suc n))"

text \<open>The number that passes the test \<open>typeof v === "number"\<close>, if \<open>v\<close> is one.\<close>

fun numeric :: "json option \<Rightarrow> int option" where
  "numeric (Some (JNum x)) = Some x"
| "numeric v = None"

text \<open>
  The object that the \<open>map\<close> callback builds from one entry, its fields evaluated in the
  order written. The entry has passed the filter, so \<open>s.id\<close> is a string; the other
  branch of the first \<open>case\<close> is never taken on a filtered entry.
\<close>

definition cleanup :: "clock \<Rightarrow> nat \<Rightarrow> json \<Rightarrow> (json, json) ChatSession \<times> nat" where
  "cleanup clk n s =
     (let i = (case property ''id'' s of Some (JStr x) \<Rightarrow> x | _ \<Rightarrow> []);
          t = (case property ''title'' s of
                 None \<Rightarrow> JStr ''Untitled''
               | Some JNull \<Rightarrow> JStr ''Untitled''
               | Some v \<Rightarrow> v);
          (c, n1) = number_or_now clk n (property ''createdAt'' s);
          (u, n2) = number_or_now clk n1 (property ''updatedAt'' s);
          ms = (case property ''messages'' s of Some (JArr xs) \<Rightarrow> xs | _ \<Rightarrow> [])
      in (\<lparr>id' = i, title = t, createdAt = c, updatedAt = u, messages = ms\<rparr>, n2))"

fun cleanup_all :: "clock \<Rightarrow> nat \<Rightarrow> json list \<Rightarrow> (json, json) ChatSession list" where
  "cleanup_all clk n [] = []"
| "cleanup_all clk n (s # ss) =
     (case cleanup clk n s of (x, n') \<Rightarrow> x # cleanup_all clk n' ss)"

text \<open>The comparator of the final sort: \<open>(a, b) => b.updatedAt - a.updatedAt\<close>.\<close>

definition by_updated_desc :: "('t, 'm) ChatSession \<Rightarrow> ('t, 'm) ChatSession \<Rightarrow> int" where
  "by_updated_desc a b = updatedAt b - updatedAt a"

definition loadSessions :: "parser \<Rightarrow> clock \<Rightarrow> env \<Rightarrow> (json, json) ChatSession list" where
  "loadSessions parse clk e =
     (if \<not> has_window e then []
      else
        let parsed = safeParse parse (localStorage e STORAGE_KEY) in
        if \<not> truthy parsed \<or> \<not> isArray parsed then []
        else sort_cmp by_updated_desc
               (cleanup_all clk 0 (filter has_string_id (elements parsed))))"

subsection \<open>Saving and clearing\<close>

text \<open>
  What \<open>JSON.stringify\<close> writes for a value of the declared types, as a JSON value: the
  fields in declaration order, an absent optional field left out.
\<close>

fun role_json :: "Role \<Rightarrow> json" where
  "role_json User = JStr ''user''"
| "role_json Assistant = JStr ''assistant''"

definition msg_json :: "Msg \<Rightarrow> json" where
  "msg_json m =
     JObj ([(''role'', role_json (role m)), (''content'', JStr (content m))]
           @ (case sources m of None \<Rightarrow> [] | Some xs \<Rightarrow> [(''sources'', JArr (map JStr xs))])
           @ (case ts m of None \<Rightarrow> [] | Some t \<Rightarrow> [(''ts'', JNum t)]))"




definition clearSessions :: "env \<Rightarrow> env" where
  "clearSessions e =
     (if \<not> has_window e then e
      else e\<lparr>localStorage := (localStorage e)(STORAGE_KEY := None)\<rparr>)"

text \<open>
  A session of the declared type as \<open>loadSessions\<close> returns it: the same fields, the
  title and the messages as JSON values.
\<close>

definition as_loaded :: "(string, Msg) ChatSession \<Rightarrow> (json, json) ChatSession" where
  "as_loaded s =
     \<lparr>id' = id' s, title = JStr (title s), createdAt = createdAt s,
      updatedAt = updatedAt s, messages = map msg_json (messages s)\<rparr>"

subsection \<open>Creating and updating sessions\<close>

text \<open>\<open>String(n)\<close> for an integer \<open>n\<close>: its decimal digits, after a minus sign if negative.\<close>

fun digits :: "nat \<Rightarrow> string" where
  "digits n =
     (if n < 10 then [''0123456789'' ! n]
      else digits (n div 10) @ [''0123456789'' ! (n mod 10)])"

declare digits.simps [simp del]

definition String :: "int \<Rightarrow> string" where
  "String n = (if n < 0 then CHR ''-'' # digits (nat (- n)) else digits (nat n))"

text \<open>
  \<open>newSession(title = "New Chat")\<close>. The host gives \<open>uuid\<close> and \<open>now\<close>: \<open>uuid\<close> is
  \<open>Some u\<close> when \<open>crypto\<close> is defined and has \<open>randomUUID\<close>, which returned \<open>u\<close>, and
  \<open>None\<close> otherwise; \<open>now\<close> is the reading of \<open>Date.now()\<close>. An omitted argument is
  \<open>None\<close>.
\<close>

definition newSession :: "string option \<Rightarrow> int \<Rightarrow> string option \<Rightarrow> (string, 'm) ChatSession" where
  "newSession uuid now arg =
     (let t = (case arg of None \<Rightarrow> ''New Chat'' | Some x \<Rightarrow> x);
          i = (case uuid of Some u \<Rightarrow> u | None \<Rightarrow> String now)
      in \<lparr>id' = i, title = t, createdAt = now, updatedAt = now, messages = []\<rparr>)"

text \<open>
  \<open>addMessage\<close>. The argument type \<open>Omit<Msg, "ts">\<close> is \<open>Msg\<close> with \<open>ts\<close> absent; the
  spread \<open>{ ...msg, ts: now }\<close> sets \<open>ts\<close> whatever it was.
\<close>

definition addMessage ::
  "int \<Rightarrow> ('t, Msg) ChatSession list \<Rightarrow> string \<Rightarrow> Msg \<Rightarrow> ('t, Msg) ChatSession list" where
  "addMessage now sessions sessionId msg =
     map (\<lambda>s. if id' s \<noteq> sessionId then s
              else let ms = messages s @ [msg\<lparr>ts := Some now\<rparr>]
                   in s\<lparr>messages := ms, updatedAt := now\<rparr>)
         sessions"

definition setTitle ::
  "int \<Rightarrow> ('t, 'm) ChatSession list \<Rightarrow> string \<Rightarrow> 't \<Rightarrow> ('t, 'm) ChatSession list" where
  "setTitle now sessions sessionId t =
     map (\<lambda>s. if id' s = sessionId then s\<lparr>title := t, updatedAt := now\<rparr> else s) sessions"

subsection \<open>Concrete hosts, blobs and sessions\<close>

text \<open>A browser whose storage holds \<open>raw\<close> under the key, or nothing under it.\<close>

definition browser :: "string option \<Rightarrow> env" where
  "browser raw = \<lparr>has_window = True, localStorage = (\<lambda>k. if k = STORAGE_KEY then raw else None)\<rparr>"

text \<open>A clock that starts at 1000 and advances by one millisecond per reading.\<close>

definition ticking :: clock where
  "ticking n = 1000 + int n"

text \<open>Persisted blobs, each with the value \<open>JSON.parse\<close> gives for it.\<close>

definition blob_broken :: string where
  \<open>blob_broken = ''[{"id":''\<close>

definition blob_object :: string where
  \<open>blob_object = ''{"id":"a"}''\<close>

definition value_object :: json where
  "value_object = JObj [(''id'', JStr ''a'')]"

definition blob_saved :: string where
  \<open>blob_saved = ''[{"id":"a","title":"First","createdAt":100,"updatedAt":150,"messages":[{"role":"user","content":"hello","ts":150}]},{"id":"b","title":"Second","createdAt":200,"updatedAt":200,"messages":[]}]''\<close>

definition value_saved :: json where
  "value_saved = JArr
     [JObj [(''id'', JStr ''a''), (''title'', JStr ''First''), (''createdAt'', JNum 100),
            (''updatedAt'', JNum 150),
            (''messages'', JArr [JObj [(''role'', JStr ''user''), (''content'', JStr ''hello''),
                                       (''ts'', JNum 150)]])],
      JObj [(''id'', JStr ''b''), (''title'', JStr ''Second''), (''createdAt'', JNum 200),
            (''updatedAt'', JNum 200), (''messages'', JArr [])]]"

definition blob_title_42 :: string where
  \<open>blob_title_42 = ''[{"id":"a","title":42}]''\<close>

definition entry_title_42 :: json where
  "entry_title_42 = JObj [(''id'', JStr ''a''), (''title'', JNum 42)]"

definition value_title_42 :: json where
  "value_title_42 = JArr [entry_title_42]"

definition blob_backdated :: string where
  \<open>blob_backdated = ''[{"id":"a","title":"T","createdAt":200,"updatedAt":100,"messages":[]}]''\<close>

definition value_backdated :: json where
  "value_backdated = JArr
     [JObj [(''id'', JStr ''a''), (''title'', JStr ''T''), (''createdAt'', JNum 200),
            (''updatedAt'', JNum 100), (''messages'', JArr [])]]"

definition blob_no_created :: string where
  \<open>blob_no_created = ''[{"id":"a","updatedAt":100}]''\<close>

definition value_no_created :: json where
  "value_no_created = JArr [JObj [(''id'', JStr ''a''), (''updatedAt'', JNum 100)]]"

definition blob_partial :: string where
  \<open>blob_partial = ''[{"id":"a"},{"id":"b","createdAt":5},{"id":"c","createdAt":100,"updatedAt":150}]''\<close>

definition value_partial :: json where
  "value_partial = JArr
     [JObj [(''id'', JStr ''a'')],
      JObj [(''id'', JStr ''b''), (''createdAt'', JNum 5)],
      JObj [(''id'', JStr ''c''), (''createdAt'', JNum 100), (''updatedAt'', JNum 150)]]"

text \<open>
  \<open>JSON.parse\<close> on these blobs; every other string, \<open>blob_broken\<close> among them, is a
  syntax error. \<open>JSON.stringify\<close> on \<open>value_saved\<close>.
\<close>

definition parse_blobs :: parser where
  "parse_blobs raw =
     (if raw = blob_object then Some value_object
      else if raw = blob_saved then Some value_saved
      else if raw = blob_title_42 then Some value_title_42
      else if raw = blob_backdated then Some value_backdated
      else if raw = blob_no_created then Some value_no_created
      else if raw = blob_partial then Some value_partial
      else None)"


text \<open>Sessions of the declared type.\<close>

definition hello :: Msg where
  "hello = \<lparr>role = User, content = ''hello'', sources = None, ts = None\<rparr>"

definition session_a :: "(string, Msg) ChatSession" where
  "session_a = \<lparr>id' = ''a'', title = ''First'', createdAt = 100, updatedAt = 150,
                 messages = [hello\<lparr>ts := Some 150\<rparr>]\<rparr>"

definition session_b :: "(string, Msg) ChatSession" where
  "session_b = \<lparr>id' = ''b'', title = ''Second'', createdAt = 200, updatedAt = 200,
                 messages = []\<rparr>"

definition uuid0 :: string where
  "uuid0 = ''3b241101-e2bb-4255-8caf-4136c566a962''"

definition fresh_uuid :: "(string, Msg) ChatSession" where
  "fresh_uuid = newSession (Some uuid0) 1000 None"

definition fresh_fallback :: "(string, Msg) ChatSession" where
  "fresh_fallback = newSession None 1000 (Some ''Notes'')"

text \<open>
  Two sessions created in the same millisecond on a host without \<open>crypto.randomUUID\<close>:
  both get the identifier \<open>"1000"\<close>.
\<close>

definition twins :: "(string, Msg) ChatSession list" where
  "twins = [newSession None 1000 None, newSession None 1000 (Some ''Other'')]"

section \<open>Properties\<close>

subsection \<open>Evaluation on the concrete blobs\<close>

lemmas blob_defs =
  blob_saved_def blob_title_42_def blob_backdated_def blob_object_def blob_broken_def
  blob_no_created_def blob_partial_def

lemmas load_defs =
  loadSessions_def safeParse_def browser_def STORAGE_KEY_def has_string_id_def
  cleanup_def number_or_now_def sort_cmp_def by_updated_desc_def ticking_def

lemmas session_defs = session_a_def session_b_def hello_def

lemma parse_saved: "parse_blobs blob_saved = Some value_saved"
  by (simp add: parse_blobs_def blob_defs)

lemma parse_title_42: "parse_blobs blob_title_42 = Some value_title_42"
  by (simp add: parse_blobs_def blob_defs)

lemma parse_backdated: "parse_blobs blob_backdated = Some value_backdated"
  by (simp add: parse_blobs_def blob_defs)

lemma load_saved:
  "loadSessions parse_blobs ticking (browser (Some blob_saved)) =
     [as_loaded session_b, as_loaded session_a]"
  by (simp add: load_defs parse_saved)
     (simp add: load_defs blob_saved_def value_saved_def as_loaded_def session_defs msg_json_def)

lemma load_backdated:
  "loadSessions parse_blobs ticking (browser (Some blob_backdated)) =
     [\<lparr>id' = ''a'', title = JStr ''T'', createdAt = 200, updatedAt = 100, messages = []\<rparr>]"
  by (simp add: load_defs parse_backdated)
     (simp add: load_defs blob_backdated_def value_backdated_def)

lemma parse_no_created: "parse_blobs blob_no_created = Some value_no_created"
  by (simp add: parse_blobs_def blob_defs)

lemma parse_partial: "parse_blobs blob_partial = Some value_partial"
  by (simp add: parse_blobs_def blob_defs)

lemma load_no_created:
  "loadSessions parse_blobs ticking (browser (Some blob_no_created)) =
     [\<lparr>id' = ''a'', title = JStr ''Untitled'', createdAt = 1000, updatedAt = 100,
       messages = []\<rparr>]"
  by (simp add: load_defs parse_no_created)
     (simp add: load_defs blob_no_created_def value_no_created_def)

lemma load_partial:
  "loadSessions parse_blobs ticking (browser (Some blob_partial)) =
     [\<lparr>id' = ''b'', title = JStr ''Untitled'', createdAt = 5, updatedAt = 1002, messages = []\<rparr>,
      \<lparr>id' = ''a'', title = JStr ''Untitled'', createdAt = 1000, updatedAt = 1001,
       messages = []\<rparr>,
      \<lparr>id' = ''c'', title = JStr ''Untitled'', createdAt = 100, updatedAt = 150, messages = []\<rparr>]"
  by (simp add: load_defs parse_partial)
     (simp add: load_defs blob_partial_def value_partial_def)


lemma String_1000: "String 1000 = ''1000''"
  by (simp add: String_def digits.simps)

lemma twins_eval:
  "twins =
     [\<lparr>id' = ''1000'', title = ''New Chat'', createdAt = 1000, updatedAt = 1000, messages = []\<rparr>,
      \<lparr>id' = ''1000'', title = ''Other'', createdAt = 1000, updatedAt = 1000, messages = []\<rparr>]"
  by (simp add: twins_def newSession_def String_1000)

subsection \<open>Missing and corrupt data\<close>

lemma loadSessions_absent:
  "localStorage e STORAGE_KEY = None \<Longrightarrow> loadSessions parse clk e = []"
  by (simp add: loadSessions_def safeParse_def)

lemma loadSessions_unparsable:
  "localStorage e STORAGE_KEY = Some raw \<Longrightarrow> parse raw = None \<Longrightarrow>
   loadSessions parse clk e = []"
  by (simp add: loadSessions_def safeParse_def)

lemma loadSessions_not_array:
  "localStorage e STORAGE_KEY = Some raw \<Longrightarrow> parse raw = Some v \<Longrightarrow> \<not> isArray v \<Longrightarrow>
   loadSessions parse clk e = []"
  by (simp add: loadSessions_def safeParse_def)

text \<open>
  Claim C1. Whatever the persisted blob is in one of three states, the key absent, the
  value not valid JSON, or the value parsing to something that is not an array,
  \<open>loadSessions\<close> returns the empty sequence. It cannot throw: the only operation that
  can, \<open>JSON.parse\<close>, runs inside \<open>safeParse\<close>, which turns the error into \<open>null\<close>, and
  the model is a total function whose result is a list in every case.
\<close>

theorem loadSessions_degrades_to_empty:
  "(localStorage e STORAGE_KEY = None \<longrightarrow> loadSessions parse clk e = []) \<and>
   (\<forall>raw. localStorage e STORAGE_KEY = Some raw \<and> parse raw = None
      \<longrightarrow> loadSessions parse clk e = []) \<and>
   (\<forall>raw v. localStorage e STORAGE_KEY = Some raw \<and> parse raw = Some v \<and> \<not> isArray v
      \<longrightarrow> loadSessions parse clk e = [])"
  using loadSessions_absent loadSessions_unparsable loadSessions_not_array by blast

theorem loadSessions_degrades_to_empty_witness:
  "localStorage (browser None) STORAGE_KEY = None \<and>
   loadSessions parse_blobs ticking (browser None) = [] \<and>
   localStorage (browser (Some blob_broken)) STORAGE_KEY = Some blob_broken \<and>
   parse_blobs blob_broken = None \<and>
   loadSessions parse_blobs ticking (browser (Some blob_broken)) = [] \<and>
   localStorage (browser (Some blob_object)) STORAGE_KEY = Some blob_object \<and>
   parse_blobs blob_object = Some value_object \<and> \<not> isArray value_object \<and>
   loadSessions parse_blobs ticking (browser (Some blob_object)) = []"
proof -
  have a: "localStorage (browser None) STORAGE_KEY = None"
    by (simp add: browser_def)
  have b: "localStorage (browser (Some blob_broken)) STORAGE_KEY = Some blob_broken"
    by (simp add: browser_def)
  have b': "parse_blobs blob_broken = None"
    by (simp add: parse_blobs_def blob_defs)
  have c: "localStorage (browser (Some blob_object)) STORAGE_KEY = Some blob_object"
    by (simp add: browser_def)
  have c': "parse_blobs blob_object = Some value_object"
    by (simp add: parse_blobs_def)
  have c'': "\<not> isArray value_object"
    by (simp add: value_object_def)
  show ?thesis
    using a b b' c c' c''
      loadSessions_degrades_to_empty [of "browser None" parse_blobs ticking]
      loadSessions_degrades_to_empty [of "browser (Some blob_broken)" parse_blobs ticking]
      loadSessions_degrades_to_empty [of "browser (Some blob_object)" parse_blobs ticking]
    by blast
qed

subsection \<open>Field normalization\<close>

text \<open>
  What the cleanup does to each field of an entry that passed the filter: the
  timestamps and the messages are checked by type, the title only against \<open>null\<close> and
  \<open>undefined\<close>.
\<close>

lemma cleanup_id:
  "property ''id'' x = Some (JStr i) \<Longrightarrow> id' (fst (cleanup clk n x)) = i"
  by (simp add: cleanup_def number_or_now_def split: prod.split)

lemma cleanup_title:
  "title (fst (cleanup clk n x)) =
     (case property ''title'' x of
        None \<Rightarrow> JStr ''Untitled''
      | Some JNull \<Rightarrow> JStr ''Untitled''
      | Some v \<Rightarrow> v)"
  by (simp add: cleanup_def number_or_now_def split: prod.split option.split json.split)

lemma cleanup_createdAt:
  "createdAt (fst (cleanup clk n x)) =
     (case property ''createdAt'' x of Some (JNum c) \<Rightarrow> c | _ \<Rightarrow> clk n)"
  by (simp add: cleanup_def number_or_now_def split: prod.split option.split json.split)

lemma cleanup_updatedAt:
  "updatedAt (fst (cleanup clk n x)) =
     (case property ''updatedAt'' x of
        Some (JNum u) \<Rightarrow> u
      | _ \<Rightarrow> clk (snd (number_or_now clk n (property ''createdAt'' x))))"
  by (simp add: cleanup_def number_or_now_def split: prod.split option.split json.split)


text \<open>
  Claim C2. The claim says that a missing or invalid title becomes \<open>"Untitled"\<close>. The code
  replaces the title only when it is \<open>null\<close> or \<open>undefined\<close> (\<open>s.title ?? "Untitled"\<close>),
  while the timestamps and the messages next to it are checked by type. For the
  persisted array \<open>[{"id":"a","title":42}]\<close> the loaded session keeps the number 42 as
  its title, although the result is declared to have \<open>title: string\<close>; the missing
  timestamps are two successive clock readings and the missing messages are empty.
\<close>

theorem loadSessions_keeps_invalid_title:
  "loadSessions parse_blobs ticking (browser (Some blob_title_42)) =
     [\<lparr>id' = ''a'', title = JNum 42, createdAt = 1000, updatedAt = 1001, messages = []\<rparr>]"
  by (simp add: load_defs parse_title_42)
     (simp add: load_defs blob_title_42_def value_title_42_def entry_title_42_def)

theorem loadSessions_keeps_invalid_title_witness:
  "map title (loadSessions parse_blobs ticking (browser (Some blob_title_42))) = [JNum 42] \<and>
   JNum 42 \<noteq> JStr ''Untitled''"
  using loadSessions_keeps_invalid_title by simp

subsection \<open>Order of the loaded sessions\<close>

lemma insert_cmp_insort:
  "insert_cmp by_updated_desc x xs = insort_key (\<lambda>s. - updatedAt s) x xs"
  by (induction xs) (auto simp: by_updated_desc_def)

lemma sort_cmp_sort_key:
  "sort_cmp by_updated_desc xs = sort_key (\<lambda>s. - updatedAt s) xs"
  by (induction xs) (simp_all add: sort_cmp_def sort_key_def insert_cmp_insort)

lemma sort_cmp_desc:
  "sorted_wrt (\<lambda>a b. updatedAt b \<le> updatedAt a) (sort_cmp by_updated_desc xs)"
proof -
  have "sorted (map (\<lambda>s. - updatedAt s) (sort_key (\<lambda>s. - updatedAt s) xs))"
    by (rule sorted_sort_key)
  then show ?thesis
    by (simp add: sort_cmp_sort_key sorted_wrt_map)
qed

lemma set_sort_cmp: "set (sort_cmp by_updated_desc xs) = set xs"
  by (simp add: sort_cmp_sort_key)

lemma loadSessions_sorted_wrt:
  "sorted_wrt (\<lambda>a b. updatedAt b \<le> updatedAt a) (loadSessions parse clk e)"
  by (simp add: loadSessions_def Let_def sort_cmp_desc)

text \<open>
  Claim C3. For every persisted input, every parser result and every clock, the sequence
  that \<open>loadSessions\<close> returns is sorted by \<open>updatedAt\<close> in descending order: each element
  has an \<open>updatedAt\<close> at least as large as that of the element after it.
\<close>

theorem loadSessions_sorted:
  "\<forall>i. Suc i < length (loadSessions parse clk e) \<longrightarrow>
     updatedAt (loadSessions parse clk e ! i) \<ge> updatedAt (loadSessions parse clk e ! Suc i)"
  using loadSessions_sorted_wrt [of parse clk e]
  by (simp add: sorted_wrt_iff_nth_less)

theorem loadSessions_sorted_witness:
  "Suc 0 < length (loadSessions parse_blobs ticking (browser (Some blob_saved))) \<and>
   updatedAt (loadSessions parse_blobs ticking (browser (Some blob_saved)) ! Suc 0)
     \<le> updatedAt (loadSessions parse_blobs ticking (browser (Some blob_saved)) ! 0) \<and>
   map updatedAt (loadSessions parse_blobs ticking (browser (Some blob_saved))) = [200, 150]"
proof -
  have len: "Suc 0 < length (loadSessions parse_blobs ticking (browser (Some blob_saved)))"
    by (simp add: load_saved)
  have vals:
    "map updatedAt (loadSessions parse_blobs ticking (browser (Some blob_saved))) = [200, 150]"
    by (simp add: load_saved as_loaded_def session_defs)
  from loadSessions_sorted [of parse_blobs ticking "browser (Some blob_saved)", rule_format, OF len]
  show ?thesis using len vals by simp
qed

subsection \<open>Creating a session\<close>

lemma digits_not_empty: "digits n \<noteq> []"
  by (subst digits.simps) simp

lemma String_not_empty: "String n \<noteq> []"
  by (simp add: String_def digits_not_empty)

text \<open>
  Claim C7. A session \<open>s\<close> returned by \<open>newSession(title)\<close> has \<open>createdAt\<close> equal to
  \<open>updatedAt\<close> (both the clock reading), an empty message list, the given title or
  \<open>"New Chat"\<close> when none is given, and as identifier the UUID when the host has
  \<open>crypto.randomUUID\<close>, otherwise the decimal string of the clock reading. The
  identifier is not empty, given that a UUID the host returns is not empty.
\<close>

theorem newSession_fresh:
  fixes s :: "(string, 'm) ChatSession"
  assumes "s = newSession uuid now arg"
  shows "createdAt s = updatedAt s \<and>
         createdAt s = now \<and>
         messages s = [] \<and>
         title s = (case arg of None \<Rightarrow> ''New Chat'' | Some t \<Rightarrow> t) \<and>
         id' s = (case uuid of Some u \<Rightarrow> u | None \<Rightarrow> String now) \<and>
         ((\<forall>u. uuid = Some u \<longrightarrow> u \<noteq> []) \<longrightarrow> id' s \<noteq> [])"
  using assms by (simp add: newSession_def String_not_empty split: option.split)

theorem newSession_fresh_witness:
  "uuid0 \<noteq> [] \<and>
   id' fresh_uuid = uuid0 \<and> title fresh_uuid = ''New Chat'' \<and>
   createdAt fresh_uuid = updatedAt fresh_uuid \<and> messages fresh_uuid = [] \<and>
   id' fresh_fallback = ''1000'' \<and> id' fresh_fallback \<noteq> [] \<and>
   title fresh_fallback = ''Notes'' \<and>
   createdAt fresh_fallback = updatedAt fresh_fallback \<and> messages fresh_fallback = []"
proof -
  have u: "\<forall>u. Some uuid0 = Some u \<longrightarrow> u \<noteq> []"
    by (simp add: uuid0_def)
  have ne: "uuid0 \<noteq> []"
    by (simp add: uuid0_def)
  note a = newSession_fresh [OF fresh_uuid_def]
  note b = newSession_fresh [OF fresh_fallback_def]
  show ?thesis
    using a b u ne String_1000 by simp
qed

subsection \<open>Appending a message\<close>

lemma addMessage_length: "length (addMessage now S sid m) = length S"
  by (simp add: addMessage_def)

lemma addMessage_nth_hit:
  "i < length S \<Longrightarrow> id' (S ! i) = sid \<Longrightarrow>
   addMessage now S sid m ! i =
     (S ! i)\<lparr>messages := messages (S ! i) @ [m\<lparr>ts := Some now\<rparr>], updatedAt := now\<rparr>"
  by (simp add: addMessage_def)

lemma addMessage_nth_miss:
  "i < length S \<Longrightarrow> id' (S ! i) \<noteq> sid \<Longrightarrow> addMessage now S sid m ! i = S ! i"
  by (simp add: addMessage_def)

lemma addMessage_unknown: "\<forall>s\<in>set S. id' s \<noteq> sid \<Longrightarrow> addMessage now S sid m = S"
  by (simp add: addMessage_def map_idI)

text \<open>
  Claim C4. \<open>addMessage(S, id, m)\<close> returns a collection of the same length. At a position
  whose session has the identifier \<open>id\<close>, the returned session has one more message than
  before: the old messages followed by \<open>m\<close> with \<open>ts\<close> set to the clock reading; its
  \<open>updatedAt\<close> is that same reading, and its identifier, title and \<open>createdAt\<close> are as
  before. At every other position the returned session is the input session.
\<close>

theorem addMessage_present:
  "length (addMessage now S sid m) = length S \<and>
   (\<forall>i<length S.
      (id' (S ! i) = sid \<longrightarrow>
         length (messages (addMessage now S sid m ! i)) = Suc (length (messages (S ! i))) \<and>
         butlast (messages (addMessage now S sid m ! i)) = messages (S ! i) \<and>
         last (messages (addMessage now S sid m ! i)) = m\<lparr>ts := Some now\<rparr> \<and>
         updatedAt (addMessage now S sid m ! i) = now \<and>
         id' (addMessage now S sid m ! i) = sid \<and>
         title (addMessage now S sid m ! i) = title (S ! i) \<and>
         createdAt (addMessage now S sid m ! i) = createdAt (S ! i)) \<and>
      (id' (S ! i) \<noteq> sid \<longrightarrow> addMessage now S sid m ! i = S ! i))"
  by (simp add: addMessage_length addMessage_nth_hit addMessage_nth_miss)

theorem addMessage_present_witness:
  "id' ([session_a, session_b] ! 0) = ''a'' \<and>
   messages (addMessage 5000 [session_a, session_b] ''a'' hello ! 0)
     = [hello\<lparr>ts := Some 150\<rparr>, hello\<lparr>ts := Some 5000\<rparr>] \<and>
   updatedAt (addMessage 5000 [session_a, session_b] ''a'' hello ! 0) = 5000 \<and>
   id' ([session_a, session_b] ! 1) \<noteq> ''a'' \<and>
   addMessage 5000 [session_a, session_b] ''a'' hello ! 1 = session_b"
proof -
  have a: "id' ([session_a, session_b] ! 0) = ''a''"
    by (simp add: session_defs)
  have b: "id' ([session_a, session_b] ! 1) \<noteq> ''a''"
    by (simp add: session_defs)
  have m: "messages ([session_a, session_b] ! 0) = [hello\<lparr>ts := Some 150\<rparr>]"
    by (simp add: session_defs)
  note t = addMessage_present [of 5000 "[session_a, session_b]" "''a''" hello,
      THEN conjunct2, rule_format]
  have hit:
    "butlast (messages (addMessage 5000 [session_a, session_b] ''a'' hello ! 0))
       = [hello\<lparr>ts := Some 150\<rparr>] \<and>
     last (messages (addMessage 5000 [session_a, session_b] ''a'' hello ! 0))
       = hello\<lparr>ts := Some 5000\<rparr> \<and>
     length (messages (addMessage 5000 [session_a, session_b] ''a'' hello ! 0)) = 2 \<and>
     updatedAt (addMessage 5000 [session_a, session_b] ''a'' hello ! 0) = 5000"
    using t [of 0] a m by simp
  then have "messages (addMessage 5000 [session_a, session_b] ''a'' hello ! 0) \<noteq> []"
    by auto
  with hit have ms:
    "messages (addMessage 5000 [session_a, session_b] ''a'' hello ! 0)
       = [hello\<lparr>ts := Some 150\<rparr>, hello\<lparr>ts := Some 5000\<rparr>]"
    by (metis append_butlast_last_id append_Cons append_Nil)
  have miss: "addMessage 5000 [session_a, session_b] ''a'' hello ! 1 = session_b"
    using t [of 1] b by simp
  show ?thesis using a b hit ms miss by simp
qed

text \<open>
  Claim C5. When no session of \<open>S\<close> has the identifier \<open>id\<close>, \<open>addMessage(S, id, m)\<close>
  returns a collection equal to \<open>S\<close>. No error is raised: the function has no failing
  branch.
\<close>

theorem addMessage_unknown_id:
  "\<forall>s\<in>set S. id' s \<noteq> sid \<Longrightarrow> addMessage now S sid m = S"
  by (rule addMessage_unknown)

theorem addMessage_unknown_id_witness:
  "id' session_a \<noteq> ''zz'' \<and> id' session_b \<noteq> ''zz'' \<and>
   addMessage 5000 [session_a, session_b] ''zz'' hello = [session_a, session_b]"
proof -
  have h: "\<forall>s\<in>set [session_a, session_b]. id' s \<noteq> ''zz''"
    by (simp add: session_defs)
  from addMessage_unknown_id [OF h, of 5000 hello] h
  show ?thesis by simp
qed

subsection \<open>Renaming a session\<close>

lemma setTitle_length: "length (setTitle now S sid t) = length S"
  by (simp add: setTitle_def)

lemma setTitle_nth_hit:
  "i < length S \<Longrightarrow> id' (S ! i) = sid \<Longrightarrow>
   setTitle now S sid t ! i = (S ! i)\<lparr>title := t, updatedAt := now\<rparr>"
  by (simp add: setTitle_def)

lemma setTitle_nth_miss:
  "i < length S \<Longrightarrow> id' (S ! i) \<noteq> sid \<Longrightarrow> setTitle now S sid t ! i = S ! i"
  by (simp add: setTitle_def)

lemma setTitle_unknown: "\<forall>s\<in>set S. id' s \<noteq> sid \<Longrightarrow> setTitle now S sid t = S"
  by (simp add: setTitle_def map_idI)

text \<open>
  Claim C6. \<open>setTitle(S, id, t)\<close> returns \<open>S\<close> when no session has the identifier \<open>id\<close>.
  Otherwise, at a position whose session has that identifier, the returned session has
  the title \<open>t\<close> and \<open>updatedAt\<close> equal to the clock reading, and the same identifier,
  \<open>createdAt\<close> and messages as before; at every other position the returned session is
  the input session.
\<close>

theorem setTitle_frame:
  "((\<forall>s\<in>set S. id' s \<noteq> sid) \<longrightarrow> setTitle now S sid t = S) \<and>
   length (setTitle now S sid t) = length S \<and>
   (\<forall>i<length S.
      (id' (S ! i) = sid \<longrightarrow>
         title (setTitle now S sid t ! i) = t \<and>
         updatedAt (setTitle now S sid t ! i) = now \<and>
         id' (setTitle now S sid t ! i) = id' (S ! i) \<and>
         createdAt (setTitle now S sid t ! i) = createdAt (S ! i) \<and>
         messages (setTitle now S sid t ! i) = messages (S ! i)) \<and>
      (id' (S ! i) \<noteq> sid \<longrightarrow> setTitle now S sid t ! i = S ! i))"
  by (simp add: setTitle_length setTitle_nth_hit setTitle_nth_miss setTitle_unknown)

theorem setTitle_frame_witness:
  "id' ([session_a, session_b] ! 0) = ''a'' \<and>
   setTitle 5000 [session_a, session_b] ''a'' ''Renamed'' ! 0
     = \<lparr>id' = ''a'', title = ''Renamed'', createdAt = 100, updatedAt = 5000,
        messages = [hello\<lparr>ts := Some 150\<rparr>]\<rparr> \<and>
   id' ([session_a, session_b] ! 1) \<noteq> ''a'' \<and>
   setTitle 5000 [session_a, session_b] ''a'' ''Renamed'' ! 1 = session_b \<and>
   id' session_a \<noteq> ''zz'' \<and> id' session_b \<noteq> ''zz'' \<and>
   setTitle 5000 [session_a, session_b] ''zz'' ''Renamed'' = [session_a, session_b]"
proof -
  have a: "id' ([session_a, session_b] ! 0) = ''a''"
    by (simp add: session_defs)
  have b: "id' ([session_a, session_b] ! 1) \<noteq> ''a''"
    by (simp add: session_defs)
  have z: "\<forall>s\<in>set [session_a, session_b]. id' s \<noteq> ''zz''"
    by (simp add: session_defs)
  note t = setTitle_frame [of "[session_a, session_b]" "''a''" 5000 "''Renamed''",
      THEN conjunct2, THEN conjunct2, rule_format]
  have hit:
    "title (setTitle 5000 [session_a, session_b] ''a'' ''Renamed'' ! 0) = ''Renamed'' \<and>
     updatedAt (setTitle 5000 [session_a, session_b] ''a'' ''Renamed'' ! 0) = 5000 \<and>
     id' (setTitle 5000 [session_a, session_b] ''a'' ''Renamed'' ! 0) = ''a'' \<and>
     createdAt (setTitle 5000 [session_a, session_b] ''a'' ''Renamed'' ! 0) = 100 \<and>
     messages (setTitle 5000 [session_a, session_b] ''a'' ''Renamed'' ! 0)
       = [hello\<lparr>ts := Some 150\<rparr>]"
    using t [of 0] a by (simp add: session_defs)
  have miss: "setTitle 5000 [session_a, session_b] ''a'' ''Renamed'' ! 1 = session_b"
    using t [of 1] b by simp
  have noop: "setTitle 5000 [session_a, session_b] ''zz'' ''Renamed'' = [session_a, session_b]"
    using setTitle_frame [of "[session_a, session_b]" "''zz''" 5000 "''Renamed''", THEN conjunct1] z
    by simp
  have eq:
    "setTitle 5000 [session_a, session_b] ''a'' ''Renamed'' ! 0
       = \<lparr>id' = ''a'', title = ''Renamed'', createdAt = 100, updatedAt = 5000,
          messages = [hello\<lparr>ts := Some 150\<rparr>]\<rparr>"
    using hit by (cases "setTitle 5000 [session_a, session_b] ''a'' ''Renamed'' ! 0") simp
  show ?thesis using a b z eq miss noop by simp
qed

subsection \<open>Sessions that share an identifier\<close>

text \<open>
  Claim C10. When several sessions of a collection have the identifier \<open>id\<close>, as two
  sessions created in the same millisecond by the timestamp fallback have,
  \<open>addMessage(S, id, m)\<close> appends the stamped message to each of them and sets the
  \<open>updatedAt\<close> of each, and \<open>setTitle(S, id, t)\<close> retitles each of them: the update
  is made at every matching position, not only at the first.
\<close>

theorem duplicates_all_updated:
  "(\<forall>i<length S. id' (S ! i) = sid \<longrightarrow>
      addMessage now S sid m ! i =
        (S ! i)\<lparr>messages := messages (S ! i) @ [m\<lparr>ts := Some now\<rparr>], updatedAt := now\<rparr>) \<and>
   (\<forall>i<length S'. id' (S' ! i) = sid \<longrightarrow>
      setTitle now S' sid t ! i = (S' ! i)\<lparr>title := t, updatedAt := now\<rparr>)"
  by (simp add: addMessage_nth_hit setTitle_nth_hit)

theorem duplicates_all_updated_witness:
  "id' (twins ! 0) = ''1000'' \<and> id' (twins ! 1) = ''1000'' \<and>
   addMessage 2000 twins ''1000'' hello =
     [(twins ! 0)\<lparr>messages := [hello\<lparr>ts := Some 2000\<rparr>], updatedAt := 2000\<rparr>,
      (twins ! 1)\<lparr>messages := [hello\<lparr>ts := Some 2000\<rparr>], updatedAt := 2000\<rparr>] \<and>
   setTitle 2000 twins ''1000'' ''Renamed'' =
     [(twins ! 0)\<lparr>title := ''Renamed'', updatedAt := 2000\<rparr>,
      (twins ! 1)\<lparr>title := ''Renamed'', updatedAt := 2000\<rparr>]"
proof -
  have i0: "id' (twins ! 0) = ''1000''" and i1: "id' (twins ! 1) = ''1000''"
    by (simp_all add: twins_eval)
  have len: "length twins = 2"
    by (simp add: twins_def)
  have m0: "messages (twins ! 0) = []" and m1: "messages (twins ! 1) = []"
    by (simp_all add: twins_eval)
  note t = duplicates_all_updated [of twins "''1000''" 2000 hello twins "''Renamed''"]
  note ta = t [THEN conjunct1, rule_format]
  note ts = t [THEN conjunct2, rule_format]
  have a0: "addMessage 2000 twins ''1000'' hello ! 0 =
      (twins ! 0)\<lparr>messages := [hello\<lparr>ts := Some 2000\<rparr>], updatedAt := 2000\<rparr>"
    using ta [of 0] len i0 m0 by simp
  have a1: "addMessage 2000 twins ''1000'' hello ! 1 =
      (twins ! 1)\<lparr>messages := [hello\<lparr>ts := Some 2000\<rparr>], updatedAt := 2000\<rparr>"
    using ta [of 1] len i1 m1 by simp
  have s0: "setTitle 2000 twins ''1000'' ''Renamed'' ! 0 =
      (twins ! 0)\<lparr>title := ''Renamed'', updatedAt := 2000\<rparr>"
    using ts [of 0] len i0 by simp
  have s1: "setTitle 2000 twins ''1000'' ''Renamed'' ! 1 =
      (twins ! 1)\<lparr>title := ''Renamed'', updatedAt := 2000\<rparr>"
    using ts [of 1] len i1 by simp
  have la: "length (addMessage 2000 twins ''1000'' hello) = 2"
    by (simp add: addMessage_length len)
  have ls: "length (setTitle 2000 twins ''1000'' ''Renamed'') = 2"
    by (simp add: setTitle_length len)
  have two: "xs = [xs ! 0, xs ! 1]" if "length xs = 2" for xs :: "(string, Msg) ChatSession list"
  proof -
    from that obtain x y where "xs = [x, y]"
      by (cases xs; cases "tl xs") auto
    then show ?thesis by simp
  qed
  from two [OF la] a0 a1 two [OF ls] s0 s1 i0 i1 show ?thesis
    by simp
qed

subsection \<open>Saving, then loading\<close>





lemma loadSessions_array:
  "has_window e \<Longrightarrow> localStorage e STORAGE_KEY = Some raw \<Longrightarrow> raw \<noteq> [] \<Longrightarrow>
   parse raw = Some (JArr xs) \<Longrightarrow>
   loadSessions parse clk e =
     sort_cmp by_updated_desc (cleanup_all clk 0 (filter has_string_id xs))"
  by (simp add: loadSessions_def safeParse_def)






subsection \<open>The order of the two timestamps\<close>

lemma cleanup_numeric:
  "property ''createdAt'' x = Some (JNum c) \<Longrightarrow> property ''updatedAt'' x = Some (JNum u) \<Longrightarrow>
   createdAt (fst (cleanup clk k x)) = c \<and> updatedAt (fst (cleanup clk k x)) = u"
  by (simp add: cleanup_def number_or_now_def)

lemma number_or_now_numeric:
  "number_or_now clk n v = (case numeric v of Some x \<Rightarrow> (x, n) | None \<Rightarrow> (clk n, Suc n))"
  by (cases v rule: numeric.cases) (simp_all add: number_or_now_def)

lemma cleanup_created:
  "createdAt (fst (cleanup clk k x)) =
     (case numeric (property ''createdAt'' x) of Some c \<Rightarrow> c | None \<Rightarrow> clk k)"
  by (simp add: cleanup_def number_or_now_numeric split: option.split prod.split)

lemma cleanup_updated:
  "updatedAt (fst (cleanup clk k x)) =
     (case numeric (property ''updatedAt'' x) of
        Some u \<Rightarrow> u
      | None \<Rightarrow>
          (case numeric (property ''createdAt'' x) of
             Some c \<Rightarrow> clk k
           | None \<Rightarrow> clk (Suc k)))"
  by (simp add: cleanup_def number_or_now_numeric split: option.split prod.split)

lemma clock_from_start: "\<forall>k. clk k \<le> clk (Suc k) \<Longrightarrow> clk 0 \<le> (clk k :: int)"
  by (rule lift_Suc_mono_le [of clk 0 k]) simp_all

lemma cleanup_ordered:
  assumes "case (numeric (property ''createdAt'' x), numeric (property ''updatedAt'' x)) of
             (Some c, Some u) \<Rightarrow> c \<le> u
           | (Some c, None) \<Rightarrow> (\<forall>k. clk k \<le> clk (Suc k)) \<and> c \<le> clk 0
           | (None, Some u) \<Rightarrow> (\<forall>k. clk k \<le> u)
           | (None, None) \<Rightarrow> (\<forall>k. clk k \<le> clk (Suc k))"
  shows "createdAt (fst (cleanup clk k x)) \<le> updatedAt (fst (cleanup clk k x))"
proof (cases "numeric (property ''createdAt'' x)")
  case None
  with assms show ?thesis
    by (cases "numeric (property ''updatedAt'' x)") (simp_all add: cleanup_created cleanup_updated)
next
  case (Some c)
  show ?thesis
  proof (cases "numeric (property ''updatedAt'' x)")
    case None
    with Some assms have "\<forall>k. clk k \<le> clk (Suc k)" and "c \<le> clk 0"
      by simp_all
    then have "c \<le> clk k"
      using clock_from_start [of clk k] by simp
    with Some None show ?thesis
      by (simp add: cleanup_created cleanup_updated)
  next
    case (Some u)
    with \<open>numeric (property ''createdAt'' x) = Some c\<close> assms show ?thesis
      by (simp add: cleanup_created cleanup_updated)
  qed
qed

lemma cleanup_all_mem:
  "r \<in> set (cleanup_all clk n xs) \<Longrightarrow> \<exists>x\<in>set xs. \<exists>k. r = fst (cleanup clk k x)"
proof (induction xs arbitrary: n)
  case Nil
  then show ?case by simp
next
  case (Cons x xs)
  obtain y n' where c: "cleanup clk n x = (y, n')"
    by (cases "cleanup clk n x")
  with Cons.prems have "r = y \<or> r \<in> set (cleanup_all clk n' xs)"
    by simp
  then show ?case
  proof
    assume "r = y"
    with c have "r = fst (cleanup clk n x)" by simp
    then show ?thesis by auto
  next
    assume "r \<in> set (cleanup_all clk n' xs)"
    from Cons.IH [OF this] show ?thesis by auto
  qed
qed

lemma cleanup_all_has:
  "x \<in> set xs \<Longrightarrow> \<exists>k. fst (cleanup clk k x) \<in> set (cleanup_all clk n xs)"
proof (induction xs arbitrary: n)
  case Nil
  then show ?case by simp
next
  case (Cons y ys)
  obtain z n' where c: "cleanup clk n y = (z, n')"
    by (cases "cleanup clk n y")
  from Cons.prems have "x = y \<or> x \<in> set ys"
    by auto
  then show ?case
  proof
    assume "x = y"
    with c have "fst (cleanup clk n x) \<in> set (cleanup_all clk n (y # ys))"
      by simp
    then show ?thesis ..
  next
    assume "x \<in> set ys"
    from Cons.IH [OF this, of n'] obtain k where
      "fst (cleanup clk k x) \<in> set (cleanup_all clk n' ys)" ..
    with c have "fst (cleanup clk k x) \<in> set (cleanup_all clk n (y # ys))"
      by simp
    then show ?thesis ..
  qed
qed

lemma loadSessions_mem:
  assumes "r \<in> set (loadSessions parse clk e)"
    and "localStorage e STORAGE_KEY = Some raw" and "parse raw = Some (JArr xs)"
  shows "\<exists>x\<in>set xs. has_string_id x \<and> (\<exists>k. r = fst (cleanup clk k x))"
proof -
  from assms have "r \<in> set (cleanup_all clk 0 (filter has_string_id xs))"
    by (simp add: loadSessions_def safeParse_def set_sort_cmp split: if_splits)
  from cleanup_all_mem [OF this] show ?thesis by auto
qed

lemma loadSessions_has:
  assumes "has_window e" and "localStorage e STORAGE_KEY = Some raw" and "raw \<noteq> []"
    and "parse raw = Some (JArr xs)" and "x \<in> set xs" and "has_string_id x"
  shows "\<exists>k. fst (cleanup clk k x) \<in> set (loadSessions parse clk e)"
proof -
  from assms(5,6) have "x \<in> set (filter has_string_id xs)"
    by simp
  from cleanup_all_has [OF this, of clk 0] show ?thesis
    using assms(1-4) by (simp add: loadSessions_array set_sort_cmp)
qed

lemma loadSessions_keeps_order:
  assumes "localStorage e STORAGE_KEY = Some raw" and "parse raw = Some (JArr xs)"
    and ok: "\<forall>x\<in>set xs. has_string_id x \<longrightarrow>
           (case (numeric (property ''createdAt'' x), numeric (property ''updatedAt'' x)) of
              (Some c, Some u) \<Rightarrow> c \<le> u
            | (Some c, None) \<Rightarrow> (\<forall>k. clk k \<le> clk (Suc k)) \<and> c \<le> clk 0
            | (None, Some u) \<Rightarrow> (\<forall>k. clk k \<le> u)
            | (None, None) \<Rightarrow> (\<forall>k. clk k \<le> clk (Suc k)))"
    and r: "r \<in> set (loadSessions parse clk e)"
  shows "createdAt r \<le> updatedAt r"
proof -
  from loadSessions_mem [OF r assms(1,2)]
  obtain x k where x: "x \<in> set xs" "has_string_id x" and rx: "r = fst (cleanup clk k x)"
    by auto
  from ok x have
    "case (numeric (property ''createdAt'' x), numeric (property ''updatedAt'' x)) of
       (Some c, Some u) \<Rightarrow> c \<le> u
     | (Some c, None) \<Rightarrow> (\<forall>k. clk k \<le> clk (Suc k)) \<and> c \<le> clk 0
     | (None, Some u) \<Rightarrow> (\<forall>k. clk k \<le> u)
     | (None, None) \<Rightarrow> (\<forall>k. clk k \<le> clk (Suc k))"
    by blast
  from cleanup_ordered [OF this, of k] rx show ?thesis
    by simp
qed

lemma loadSessions_keeps_disorder:
  assumes "has_window e" and "localStorage e STORAGE_KEY = Some raw" and "raw \<noteq> []"
    and "parse raw = Some (JArr xs)" and "x \<in> set xs" and "has_string_id x"
    and u: "numeric (property ''updatedAt'' x) = Some u"
    and bad: "(\<exists>c. numeric (property ''createdAt'' x) = Some c \<and> u < c) \<or>
              (numeric (property ''createdAt'' x) = None \<and> (\<forall>k. u < clk k))"
  shows "\<exists>r\<in>set (loadSessions parse clk e). updatedAt r < createdAt r"
proof -
  from loadSessions_has [where e = e and raw = raw and parse = parse and xs = xs and x = x
      and clk = clk, OF assms(1-6)] obtain k where
    k: "fst (cleanup clk k x) \<in> set (loadSessions parse clk e)" ..
  from u bad have "updatedAt (fst (cleanup clk k x)) < createdAt (fst (cleanup clk k x))"
    by (auto simp: cleanup_created cleanup_updated)
  with k show ?thesis ..
qed

lemma addMessage_keeps_order:
  "i < length S \<Longrightarrow> createdAt (S ! i) \<le> updatedAt (S ! i) \<Longrightarrow> createdAt (S ! i) \<le> now \<Longrightarrow>
   createdAt (addMessage now S sid m ! i) \<le> updatedAt (addMessage now S sid m ! i)"
  by (simp add: addMessage_def)

lemma setTitle_keeps_order:
  "i < length S \<Longrightarrow> createdAt (S ! i) \<le> updatedAt (S ! i) \<Longrightarrow> createdAt (S ! i) \<le> now \<Longrightarrow>
   createdAt (setTitle now S sid t ! i) \<le> updatedAt (setTitle now S sid t ! i)"
  by (simp add: setTitle_def)

text \<open>
  Claim C9, as stated, fails for \<open>loadSessions\<close>: it copies a numeric timestamp as it is
  persisted and never compares the two. A persisted entry with \<open>createdAt\<close> 200 and
  \<open>updatedAt\<close> 100 is returned with \<open>updatedAt\<close> before \<open>createdAt\<close>; so is an entry
  with \<open>updatedAt\<close> 100 and no \<open>createdAt\<close>, whose \<open>createdAt\<close> becomes the clock
  reading 1000.
\<close>

theorem loadSessions_returns_backdated:
  "loadSessions parse_blobs ticking (browser (Some blob_backdated)) =
     [\<lparr>id' = ''a'', title = JStr ''T'', createdAt = 200, updatedAt = 100, messages = []\<rparr>] \<and>
   updatedAt \<lparr>id' = ''a'', title = JStr ''T'', createdAt = 200, updatedAt = 100,
              messages = ([] :: json list)\<rparr>
     < createdAt \<lparr>id' = ''a'', title = JStr ''T'', createdAt = 200, updatedAt = 100,
              messages = ([] :: json list)\<rparr> \<and>
   loadSessions parse_blobs ticking (browser (Some blob_no_created)) =
     [\<lparr>id' = ''a'', title = JStr ''Untitled'', createdAt = 1000, updatedAt = 100,
       messages = []\<rparr>] \<and>
   updatedAt \<lparr>id' = ''a'', title = JStr ''Untitled'', createdAt = 1000, updatedAt = 100,
              messages = ([] :: json list)\<rparr>
     < createdAt \<lparr>id' = ''a'', title = JStr ''Untitled'', createdAt = 1000, updatedAt = 100,
              messages = ([] :: json list)\<rparr>"
  by (simp add: load_backdated load_no_created)

text \<open>
  Claim C9, amended. \<open>updatedAt >= createdAt\<close> holds for the session \<open>newSession\<close>
  returns; \<open>addMessage\<close> and \<open>setTitle\<close> keep it for every session that has it and
  whose \<open>createdAt\<close> is not after the clock reading. \<open>loadSessions\<close> does not enforce
  it on persisted numbers. Every session it returns has it when each persisted entry
  with a string identifier is of one of these kinds: both timestamps numeric and in
  order; \<open>createdAt\<close> numeric and not after the first clock reading, no numeric
  \<open>updatedAt\<close>, the clock non-decreasing; neither timestamp numeric, the clock
  non-decreasing; no numeric \<open>createdAt\<close> and a numeric \<open>updatedAt\<close> not before any
  clock reading. In a browser, the result has a session with \<open>updatedAt\<close> before
  \<open>createdAt\<close> when the persisted array has an entry with a string identifier whose
  numeric \<open>updatedAt\<close> is below its numeric \<open>createdAt\<close>, or is below every clock
  reading while \<open>createdAt\<close> is not numeric.
\<close>

theorem updated_not_before_created:
  "createdAt (newSession uuid now arg :: (string, 'm) ChatSession)
     \<le> updatedAt (newSession uuid now arg :: (string, 'm) ChatSession) \<and>
   (\<forall>i<length S. createdAt (S ! i) \<le> updatedAt (S ! i) \<and> createdAt (S ! i) \<le> now \<longrightarrow>
      createdAt (addMessage now S sid m ! i) \<le> updatedAt (addMessage now S sid m ! i)) \<and>
   (\<forall>i<length S'. createdAt (S' ! i) \<le> updatedAt (S' ! i) \<and> createdAt (S' ! i) \<le> now \<longrightarrow>
      createdAt (setTitle now S' sid t ! i) \<le> updatedAt (setTitle now S' sid t ! i)) \<and>
   (\<forall>raw xs.
      localStorage e STORAGE_KEY = Some raw \<and> parse raw = Some (JArr xs) \<and>
      (\<forall>x\<in>set xs. has_string_id x \<longrightarrow>
         (case (numeric (property ''createdAt'' x), numeric (property ''updatedAt'' x)) of
            (Some c, Some u) \<Rightarrow> c \<le> u
          | (Some c, None) \<Rightarrow> (\<forall>k. clk k \<le> clk (Suc k)) \<and> c \<le> clk 0
          | (None, Some u) \<Rightarrow> (\<forall>k. clk k \<le> u)
          | (None, None) \<Rightarrow> (\<forall>k. clk k \<le> clk (Suc k))))
      \<longrightarrow> (\<forall>r\<in>set (loadSessions parse clk e). createdAt r \<le> updatedAt r)) \<and>
   (\<forall>raw xs x u.
      has_window e \<and> localStorage e STORAGE_KEY = Some raw \<and> raw \<noteq> [] \<and>
      parse raw = Some (JArr xs) \<and> x \<in> set xs \<and> has_string_id x \<and>
      numeric (property ''updatedAt'' x) = Some u \<and>
      ((\<exists>c. numeric (property ''createdAt'' x) = Some c \<and> u < c) \<or>
       (numeric (property ''createdAt'' x) = None \<and> (\<forall>k. u < clk k)))
      \<longrightarrow> (\<exists>r\<in>set (loadSessions parse clk e). updatedAt r < createdAt r))"
proof (intro conjI allI impI ballI)
  show "createdAt (newSession uuid now arg :: (string, 'm) ChatSession)
     \<le> updatedAt (newSession uuid now arg :: (string, 'm) ChatSession)"
    by (simp add: newSession_def)
next
  fix i
  assume "i < length S"
    and "createdAt (S ! i) \<le> updatedAt (S ! i) \<and> createdAt (S ! i) \<le> now"
  then show "createdAt (addMessage now S sid m ! i) \<le> updatedAt (addMessage now S sid m ! i)"
    by (simp add: addMessage_keeps_order)
next
  fix i
  assume "i < length S'"
    and "createdAt (S' ! i) \<le> updatedAt (S' ! i) \<and> createdAt (S' ! i) \<le> now"
  then show "createdAt (setTitle now S' sid t ! i) \<le> updatedAt (setTitle now S' sid t ! i)"
    by (simp add: setTitle_keeps_order)
next
  fix raw xs r
  assume h: "localStorage e STORAGE_KEY = Some raw \<and> parse raw = Some (JArr xs) \<and>
      (\<forall>x\<in>set xs. has_string_id x \<longrightarrow>
         (case (numeric (property ''createdAt'' x), numeric (property ''updatedAt'' x)) of
            (Some c, Some u) \<Rightarrow> c \<le> u
          | (Some c, None) \<Rightarrow> (\<forall>k. clk k \<le> clk (Suc k)) \<and> c \<le> clk 0
          | (None, Some u) \<Rightarrow> (\<forall>k. clk k \<le> u)
          | (None, None) \<Rightarrow> (\<forall>k. clk k \<le> clk (Suc k))))"
    and r: "r \<in> set (loadSessions parse clk e)"
  from h have a: "localStorage e STORAGE_KEY = Some raw" and b: "parse raw = Some (JArr xs)"
    by simp_all
  from h loadSessions_keeps_order [OF a b _ r] show "createdAt r \<le> updatedAt r"
    by blast
next
  fix raw xs x u
  assume h: "has_window e \<and> localStorage e STORAGE_KEY = Some raw \<and> raw \<noteq> [] \<and>
      parse raw = Some (JArr xs) \<and> x \<in> set xs \<and> has_string_id x \<and>
      numeric (property ''updatedAt'' x) = Some u \<and>
      ((\<exists>c. numeric (property ''createdAt'' x) = Some c \<and> u < c) \<or>
       (numeric (property ''createdAt'' x) = None \<and> (\<forall>k. u < clk k)))"
  then show "\<exists>r\<in>set (loadSessions parse clk e). updatedAt r < createdAt r"
    by (intro loadSessions_keeps_disorder [of e raw parse xs x u clk]) simp_all
qed

theorem updated_not_before_created_witness:
  "createdAt session_a \<le> updatedAt session_a \<and> createdAt session_a \<le> 5000 \<and>
   createdAt (addMessage 5000 [session_a, session_b] ''a'' hello ! 0)
     \<le> updatedAt (addMessage 5000 [session_a, session_b] ''a'' hello ! 0) \<and>
   createdAt (setTitle 5000 [session_a, session_b] ''a'' ''Renamed'' ! 0)
     \<le> updatedAt (setTitle 5000 [session_a, session_b] ''a'' ''Renamed'' ! 0) \<and>
   length (loadSessions parse_blobs ticking (browser (Some blob_saved))) = 2 \<and>
   createdAt (loadSessions parse_blobs ticking (browser (Some blob_saved)) ! 0)
     \<le> updatedAt (loadSessions parse_blobs ticking (browser (Some blob_saved)) ! 0) \<and>
   createdAt (loadSessions parse_blobs ticking (browser (Some blob_saved)) ! 1)
     \<le> updatedAt (loadSessions parse_blobs ticking (browser (Some blob_saved)) ! 1) \<and>
   length (loadSessions parse_blobs ticking (browser (Some blob_partial))) = 3 \<and>
   createdAt (loadSessions parse_blobs ticking (browser (Some blob_partial)) ! 0)
     \<le> updatedAt (loadSessions parse_blobs ticking (browser (Some blob_partial)) ! 0) \<and>
   createdAt (loadSessions parse_blobs ticking (browser (Some blob_partial)) ! 1)
     \<le> updatedAt (loadSessions parse_blobs ticking (browser (Some blob_partial)) ! 1) \<and>
   createdAt (loadSessions parse_blobs ticking (browser (Some blob_partial)) ! 2)
     \<le> updatedAt (loadSessions parse_blobs ticking (browser (Some blob_partial)) ! 2) \<and>
   (\<exists>r\<in>set (loadSessions parse_blobs ticking (browser (Some blob_backdated))).
      updatedAt r < createdAt r) \<and>
   (\<exists>r\<in>set (loadSessions parse_blobs ticking (browser (Some blob_no_created))).
      updatedAt r < createdAt r)"
proof -
  note t = updated_not_before_created [where ?'m = Msg, of "None" 5000 "None"
      "[session_a, session_b]" "''a''" hello "[session_a, session_b]" "''Renamed''"
      _ parse_blobs ticking]
  have pre: "createdAt ([session_a, session_b] ! 0) \<le> updatedAt ([session_a, session_b] ! 0) \<and>
             createdAt ([session_a, session_b] ! 0) \<le> 5000"
    by (simp add: session_defs)
  have add: "createdAt (addMessage 5000 [session_a, session_b] ''a'' hello ! 0)
     \<le> updatedAt (addMessage 5000 [session_a, session_b] ''a'' hello ! 0)"
    using t [THEN conjunct2, THEN conjunct1, rule_format, of 0] pre by simp
  have set: "createdAt (setTitle 5000 [session_a, session_b] ''a'' ''Renamed'' ! 0)
     \<le> updatedAt (setTitle 5000 [session_a, session_b] ''a'' ''Renamed'' ! 0)"
    using t [THEN conjunct2, THEN conjunct2, THEN conjunct1, rule_format, of 0] pre by simp
  note keep = t [THEN conjunct2, THEN conjunct2, THEN conjunct2, THEN conjunct1, rule_format]
  note lose = t [THEN conjunct2, THEN conjunct2, THEN conjunct2, THEN conjunct2, rule_format]
  have st: "localStorage (browser (Some raw)) STORAGE_KEY = Some raw" for raw
    by (simp add: browser_def)
  have win: "has_window (browser raw)" for raw
    by (simp add: browser_def)
  have ok_saved: "\<forall>x\<in>set (elements value_saved). has_string_id x \<longrightarrow>
      (case (numeric (property ''createdAt'' x), numeric (property ''updatedAt'' x)) of
         (Some c, Some u) \<Rightarrow> c \<le> u
       | (Some c, None) \<Rightarrow> (\<forall>k. ticking k \<le> ticking (Suc k)) \<and> c \<le> ticking 0
       | (None, Some u) \<Rightarrow> (\<forall>k. ticking k \<le> u)
       | (None, None) \<Rightarrow> (\<forall>k. ticking k \<le> ticking (Suc k)))"
    by (simp add: value_saved_def)
  have ok_partial: "\<forall>x\<in>set (elements value_partial). has_string_id x \<longrightarrow>
      (case (numeric (property ''createdAt'' x), numeric (property ''updatedAt'' x)) of
         (Some c, Some u) \<Rightarrow> c \<le> u
       | (Some c, None) \<Rightarrow> (\<forall>k. ticking k \<le> ticking (Suc k)) \<and> c \<le> ticking 0
       | (None, Some u) \<Rightarrow> (\<forall>k. ticking k \<le> u)
       | (None, None) \<Rightarrow> (\<forall>k. ticking k \<le> ticking (Suc k)))"
    by (simp add: value_partial_def ticking_def)
  have len: "length (loadSessions parse_blobs ticking (browser (Some blob_saved))) = 2"
    by (simp add: load_saved)
  have len3: "length (loadSessions parse_blobs ticking (browser (Some blob_partial))) = 3"
    by (simp add: load_partial)
  have all: "\<forall>r\<in>set (loadSessions parse_blobs ticking (browser (Some blob_saved))).
               createdAt r \<le> updatedAt r"
    using keep [of "browser (Some blob_saved)" blob_saved "elements value_saved"]
      st parse_saved ok_saved
    by (simp add: value_saved_def)
  have all3: "\<forall>r\<in>set (loadSessions parse_blobs ticking (browser (Some blob_partial))).
               createdAt r \<le> updatedAt r"
    using keep [of "browser (Some blob_partial)" blob_partial "elements value_partial"]
      st parse_partial ok_partial
    by (simp add: value_partial_def)
  have l0: "createdAt (loadSessions parse_blobs ticking (browser (Some blob_saved)) ! 0)
     \<le> updatedAt (loadSessions parse_blobs ticking (browser (Some blob_saved)) ! 0)"
    using all len by (simp add: nth_mem)
  have l1: "createdAt (loadSessions parse_blobs ticking (browser (Some blob_saved)) ! 1)
     \<le> updatedAt (loadSessions parse_blobs ticking (browser (Some blob_saved)) ! 1)"
    using all len by (simp add: nth_mem)
  have p0: "createdAt (loadSessions parse_blobs ticking (browser (Some blob_partial)) ! 0)
     \<le> updatedAt (loadSessions parse_blobs ticking (browser (Some blob_partial)) ! 0)"
    using all3 len3 by (simp add: nth_mem)
  have p1: "createdAt (loadSessions parse_blobs ticking (browser (Some blob_partial)) ! 1)
     \<le> updatedAt (loadSessions parse_blobs ticking (browser (Some blob_partial)) ! 1)"
    using all3 len3 by (simp add: nth_mem)
  have p2: "createdAt (loadSessions parse_blobs ticking (browser (Some blob_partial)) ! 2)
     \<le> updatedAt (loadSessions parse_blobs ticking (browser (Some blob_partial)) ! 2)"
    using all3 len3 by (simp add: nth_mem)
  have x1: "hd (elements value_backdated) \<in> set (elements value_backdated) \<and>
      has_string_id (hd (elements value_backdated)) \<and>
      numeric (property ''updatedAt'' (hd (elements value_backdated))) = Some 100 \<and>
      ((\<exists>c. numeric (property ''createdAt'' (hd (elements value_backdated))) = Some c \<and> 100 < c) \<or>
       (numeric (property ''createdAt'' (hd (elements value_backdated))) = None \<and>
        (\<forall>k. 100 < ticking k)))"
    by (simp add: value_backdated_def has_string_id_def)
  have pv1: "parse_blobs blob_backdated = Some (JArr (elements value_backdated))"
    by (simp add: parse_backdated value_backdated_def)
  have ne1: "blob_backdated \<noteq> []"
    by (simp add: blob_backdated_def)
  have bad1: "\<exists>r\<in>set (loadSessions parse_blobs ticking (browser (Some blob_backdated))).
      updatedAt r < createdAt r"
    using lose [of "browser (Some blob_backdated)" blob_backdated "elements value_backdated"
        "hd (elements value_backdated)" 100] win st ne1 pv1 x1
    by blast
  have x2: "hd (elements value_no_created) \<in> set (elements value_no_created) \<and>
      has_string_id (hd (elements value_no_created)) \<and>
      numeric (property ''updatedAt'' (hd (elements value_no_created))) = Some 100 \<and>
      ((\<exists>c. numeric (property ''createdAt'' (hd (elements value_no_created))) = Some c \<and> 100 < c) \<or>
       (numeric (property ''createdAt'' (hd (elements value_no_created))) = None \<and>
        (\<forall>k. 100 < ticking k)))"
    by (simp add: value_no_created_def has_string_id_def ticking_def)
  have pv2: "parse_blobs blob_no_created = Some (JArr (elements value_no_created))"
    by (simp add: parse_no_created value_no_created_def)
  have ne2: "blob_no_created \<noteq> []"
    by (simp add: blob_no_created_def)
  have bad2: "\<exists>r\<in>set (loadSessions parse_blobs ticking (browser (Some blob_no_created))).
      updatedAt r < createdAt r"
    using lose [of "browser (Some blob_no_created)" blob_no_created "elements value_no_created"
        "hd (elements value_no_created)" 100] win st ne2 pv2 x2
    by blast
  show ?thesis using pre add set len l0 l1 len3 p0 p1 p2 bad1 bad2 by simp
qed

end
